theory Spec2Isabelle
  imports Complex_Main "HOL-Library.Sublist" "HOL-Library.Multiset"
begin

section \<open>Strings, as the pipeline reads them\<close>

text \<open>
  A Python \<open>str\<close> is modelled as a \<open>string\<close>: a list of 8-bit characters, each read as
  the Unicode code point of the same number (0 to 255, Latin-1). The character classes
  below are Python's for these code points: \<open>str.isspace\<close> (what \<open>str.split()\<close> splits
  on), \<open>str.lower\<close> and the class \<open>\w\<close> of \<open>re\<close> on a \<open>str\<close> pattern. Numbers are
  Python floats in the source and reals here.
\<close>

definition isspace :: "char \<Rightarrow> bool" where
  "isspace c = ((of_char c :: nat) \<in> {9, 10, 11, 12, 13, 28, 29, 30, 31, 32, 133, 160})"

definition lower_char :: "char \<Rightarrow> char" where
  "lower_char c =
     (let n = (of_char c :: nat)
      in if (65 \<le> n \<and> n \<le> 90) \<or> (192 \<le> n \<and> n \<le> 222 \<and> n \<noteq> 215)
         then char_of (n + 32) else c)"

definition lower :: "string \<Rightarrow> string" where
  "lower s = map lower_char s"

definition is_word_char :: "char \<Rightarrow> bool" where
  "is_word_char c =
     (let n = (of_char c :: nat)
      in (48 \<le> n \<and> n \<le> 57) \<or> (65 \<le> n \<and> n \<le> 90) \<or> n = 95 \<or> (97 \<le> n \<and> n \<le> 122)
         \<or> n \<in> {170, 178, 179, 181, 185, 186, 188, 189, 190}
         \<or> (192 \<le> n \<and> n \<le> 214) \<or> (216 \<le> n \<and> n \<le> 246) \<or> 248 \<le> n)"

text \<open>
  The maximal runs of characters that satisfy \<open>P\<close>, left to right; \<open>cur\<close> is the run being
  read. Both \<open>s.split()\<close> (runs of non-whitespace) and \<open>re.findall(r'\w+', s)\<close> (runs of
  word characters) are instances.
\<close>

fun runs :: "(char \<Rightarrow> bool) \<Rightarrow> string \<Rightarrow> string \<Rightarrow> string list" where
  "runs P cur [] = (if cur = [] then [] else [cur])"
| "runs P cur (c # cs) =
     (if P c then runs P (cur @ [c]) cs
      else (if cur = [] then [] else [cur]) @ runs P [] cs)"

definition split :: "string \<Rightarrow> string list" where
  "split s = runs (\<lambda>c. \<not> isspace c) [] s"

definition findall_w :: "string \<Rightarrow> string list" where
  "findall_w s = runs is_word_char [] s"

text \<open>\<open>w in s\<close> on two strings: \<open>w\<close> occurs in \<open>s\<close> as a contiguous substring.\<close>

fun contains :: "string \<Rightarrow> string \<Rightarrow> bool" where
  "contains [] w = (w = [])"
| "contains (c # cs) w = (take (length w) (c # cs) = w \<or> contains cs w)"

section \<open>Python idioms\<close>

text \<open>
  \<open>k or d\<close> on an optional integer: \<open>None\<close> and \<open>0\<close> are falsy and give \<open>d\<close>.
  \<open>xs[:k]\<close>: the first \<open>k\<close> elements, and for a negative \<open>k\<close> all but the last \<open>-k\<close>.
\<close>

definition py_or :: "int option \<Rightarrow> int \<Rightarrow> int" where
  "py_or k d = (case k of None \<Rightarrow> d | Some v \<Rightarrow> if v = 0 then d else v)"

definition slice_to :: "'a list \<Rightarrow> int \<Rightarrow> 'a list" where
  "slice_to xs k = (if 0 \<le> k then take (nat k) xs else take (length xs - nat (- k)) xs)"

section \<open>Data model\<close>

datatype meta_value = MStr string | MInt int

record document =
  page_content :: string
  metadata :: "(string \<times> meta_value) list"

text \<open>\<open>metadata.get(key, default)\<close> on the chunk's metadata dictionary.\<close>

definition metadata_get :: "document \<Rightarrow> string \<Rightarrow> meta_value \<Rightarrow> meta_value" where
  "metadata_get doc key dflt = (case map_of (metadata doc) key of None \<Rightarrow> dflt | Some v \<Rightarrow> v)"

record settings =
  TOP_K :: int
  MODEL_NAME :: string

section \<open>Reranker (core/reranker.py)\<close>

definition calculate_lexical_similarity :: "string \<Rightarrow> string \<Rightarrow> real" where
  "calculate_lexical_similarity query doc =
     (let query_words = set (findall_w (lower query));
          doc_words = set (findall_w (lower doc))
      in if query_words = {} \<or> doc_words = {} then 0
         else real (card (query_words \<inter> doc_words)) / real (card (query_words \<union> doc_words)))"

definition length_factor :: "document \<Rightarrow> real" where
  "length_factor doc = min (real (length (page_content doc)) / 100) 1"

definition final_score :: "string \<Rightarrow> document \<Rightarrow> real" where
  "final_score query doc =
     calculate_lexical_similarity query (page_content doc) * 0.8 + length_factor doc * 0.2"

definition scored_docs :: "string \<Rightarrow> document list \<Rightarrow> (document \<times> real) list" where
  "scored_docs query documents = map (\<lambda>doc. (doc, final_score query doc)) documents"

text \<open>
  \<open>list.sort(key=lambda x: x[1], reverse=True)\<close>: Python's sort is stable, also with
  \<open>reverse=True\<close>; it is modelled by the stable insertion sort of the library on the
  negated score.
\<close>

definition sort_by_score_desc :: "(document \<times> real) list \<Rightarrow> (document \<times> real) list" where
  "sort_by_score_desc xs = sort_key (\<lambda>p. - snd p) xs"

definition simple_rerank :: "string \<Rightarrow> document list \<Rightarrow> int option \<Rightarrow> (document \<times> real) list" where
  "simple_rerank query documents top_k =
     (let top_k' = py_or top_k (int (length documents))
      in slice_to (sort_by_score_desc (scored_docs query documents)) top_k')"

text \<open>
  The Jaccard similarity of two finite sets as the specification names it, with the
  value for two empty sets written out.
\<close>

definition jaccard :: "'a set \<Rightarrow> 'a set \<Rightarrow> real" where
  "jaccard A B = (if A \<union> B = {} then 0 else real (card (A \<inter> B)) / real (card (A \<union> B)))"

section \<open>Collaborators\<close>

text \<open>
  What the pipeline calls and does not own: the Chroma vector store behind
  \<open>VectorStoreManager\<close>, the chat-completion client, Python's string hash and the clock.
  Each call either raises (\<open>Inl\<close>) or returns (\<open>Inr\<close>). The chat client is applied to the
  model name, the single user message, the temperature and \<open>max_tokens\<close>; a response is
  read through \<open>choices[0].message.content\<close> (taken to be a string) and
  \<open>usage.total_tokens\<close>. The clock is given by the readings of \<open>time.time()\<close> that an
  ask operation can take: \<open>time_start\<close> on entry, \<open>time_generated\<close> after the generation
  call, \<open>time_failed\<close> in the exception handler.
\<close>

datatype error = StoreUnavailable string | GenerationError string | ZeroDivisionError

fun str_of_error :: "error \<Rightarrow> string" where
  "str_of_error (StoreUnavailable msg) = msg"
| "str_of_error (GenerationError msg) = msg"
| "str_of_error ZeroDivisionError = ''division by zero''"

record chat_response =
  message_content :: string
  total_tokens :: "int option"

record world =
  vectorstore_search :: "string \<Rightarrow> int \<Rightarrow> error + document list"
  chat_create :: "string \<Rightarrow> string \<Rightarrow> real \<Rightarrow> nat \<Rightarrow> error + chat_response"
  str_hash :: "string \<Rightarrow> int"
  time_start :: real
  time_generated :: real
  time_failed :: real

text \<open>
  The contract of the store's search that the specification states: a search for \<open>k\<close>
  chunks returns at most \<open>k\<close> of them.
\<close>

definition store_respects_k :: "world \<Rightarrow> bool" where
  "store_respects_k w =
     (\<forall>q k ds. 0 \<le> k \<and> vectorstore_search w q k = Inr ds \<longrightarrow> int (length ds) \<le> k)"

section \<open>Vector store manager (core/vector\_store\_compatible.py)\<close>

definition similarity_search :: "settings \<Rightarrow> world \<Rightarrow> string \<Rightarrow> int option \<Rightarrow> error + document list" where
  "similarity_search s w query k = vectorstore_search w query (py_or k (TOP_K s))"

section \<open>HyDE retriever (core/hyde\_retrieval.py)\<close>

text \<open>
  The prompt templates and the apology of the failure result are Chinese text in the
  source; they are rendered in English here.
\<close>

definition hyde_prompt_format :: "string \<Rightarrow> string" where
  "hyde_prompt_format question =
     ''Generate a hypothetical detailed answer to the question below, for document retrieval.''
     @ [CHR 0x0A, CHR 0x0A] @ ''Question: '' @ question
     @ [CHR 0x0A, CHR 0x0A] @ ''Hypothetical answer:''"

definition generate_hypothetical_answer :: "settings \<Rightarrow> world \<Rightarrow> string \<Rightarrow> string" where
  "generate_hypothetical_answer s w question =
     (case chat_create w (MODEL_NAME s) (hyde_prompt_format question) 0.3 300 of
        Inr response \<Rightarrow> message_content response
      | Inl e \<Rightarrow> question)"

text \<open>
  The merging loop: \<open>unique\<close> is \<open>unique_results\<close>, \<open>seen\<close> is \<open>seen_content\<close>; the loop
  breaks as soon as \<open>unique\<close> holds \<open>k\<close> chunks.
\<close>

fun dedup_loop :: "(string \<Rightarrow> int) \<Rightarrow> int \<Rightarrow> document list \<Rightarrow> document list \<Rightarrow> int set \<Rightarrow> document list" where
  "dedup_loop h k [] unique seen = unique"
| "dedup_loop h k (doc # rest) unique seen =
     (let content_hash = h (page_content doc)
      in if content_hash \<notin> seen
         then (let seen' = insert content_hash seen; unique' = unique @ [doc]
               in if k \<le> int (length unique') then unique'
                  else dedup_loop h k rest unique' seen')
         else dedup_loop h k rest unique seen)"

definition hyde_retrieve :: "settings \<Rightarrow> world \<Rightarrow> string \<Rightarrow> int option \<Rightarrow> error + document list" where
  "hyde_retrieve s w question k =
     (let k' = py_or k (TOP_K s);
          hypothetical_answer = generate_hypothetical_answer s w question
      in case similarity_search s w hypothetical_answer (Some (k' * 2)) of
           Inl e \<Rightarrow> Inl e
         | Inr hyde_results \<Rightarrow>
             (case similarity_search s w question (Some k') of
                Inl e \<Rightarrow> Inl e
              | Inr question_results \<Rightarrow>
                  Inr (slice_to (dedup_loop (str_hash w) k' (hyde_results @ question_results) [] {}) k')))"

text \<open>
  Deduplication as the specification words it: keep the first chunk of every key, in the
  order of the input. \<open>seen\<close> holds the keys already met.
\<close>

fun first_seen_by :: "(document \<Rightarrow> 'k) \<Rightarrow> 'k set \<Rightarrow> document list \<Rightarrow> document list" where
  "first_seen_by key seen [] = []"
| "first_seen_by key seen (doc # rest) =
     (if key doc \<in> seen then first_seen_by key seen rest
      else doc # first_seen_by key (insert (key doc) seen) rest)"

section \<open>Confidence estimator (core/enhanced\_rag\_chain.py)\<close>

text \<open>
  The local variables of \<open>calculate_enhanced_confidence\<close>, one definition each.
  \<open>question_words\<close> is the set of lower-cased whitespace-separated tokens of the
  question. \<open>doc_score\<close> divides by \<open>settings.TOP_K\<close>; the division by zero is a branch of
  \<open>calculate_enhanced_confidence\<close>.
\<close>

definition question_words :: "string \<Rightarrow> string set" where
  "question_words question = set (split (lower question))"

definition doc_score :: "settings \<Rightarrow> document list \<Rightarrow> real" where
  "doc_score s source_docs =
     min (real (length source_docs) / real_of_int (TOP_K s)) 1 * 0.3"

definition method_bonus :: "string \<Rightarrow> real" where
  "method_bonus retrieval_method = (if retrieval_method = ''hyde'' then 0.1 else 0)"

definition overlap :: "string set \<Rightarrow> document \<Rightarrow> real" where
  "overlap qw doc =
     (let doc_words = set (split (lower (page_content doc)))
      in if qw \<noteq> {} \<and> doc_words \<noteq> {}
         then real (card (qw \<inter> doc_words)) / real (card (qw \<union> doc_words))
         else 0)"

definition relevance_score :: "document list \<Rightarrow> string \<Rightarrow> real" where
  "relevance_score source_docs question =
     (let total = sum_list (map (overlap (question_words question)) source_docs)
      in if source_docs \<noteq> [] then min (total / real (length source_docs)) 1 * 0.3 else 0)"

definition answer_length_score :: "string \<Rightarrow> real" where
  "answer_length_score answer = min (real (length (split answer)) / 50) 1 * 0.2"

definition keyword_matches :: "string \<Rightarrow> string \<Rightarrow> nat" where
  "keyword_matches question answer =
     card (Set.filter (\<lambda>word. 2 < length word \<and> contains (lower answer) word)
             (question_words question))"

definition keyword_score :: "string \<Rightarrow> string \<Rightarrow> real" where
  "keyword_score question answer =
     min (real (keyword_matches question answer)
            / real (max (card (question_words question)) 1)) 1 * 0.1"

definition calculate_enhanced_confidence ::
  "settings \<Rightarrow> document list \<Rightarrow> string \<Rightarrow> string \<Rightarrow> string \<Rightarrow> error + real" where
  "calculate_enhanced_confidence s source_docs question answer retrieval_method =
     (if source_docs = [] then Inr 0.1
      else if TOP_K s = 0 then Inl ZeroDivisionError
      else (let total_confidence =
                  doc_score s source_docs + relevance_score source_docs question
                  + answer_length_score answer + keyword_score question answer
                  + method_bonus retrieval_method
            in Inr (min (max total_confidence 0.1) 0.95)))"

text \<open>
  The keyword component as the specification words it: of the question tokens longer than
  two characters, the fraction that appear in the answer, times 0.1 (0 when the question
  has no such token).
\<close>

definition keyword_score_spec :: "string \<Rightarrow> string \<Rightarrow> real" where
  "keyword_score_spec question answer =
     (let long_words = Set.filter (\<lambda>word. 2 < length word) (question_words question);
          found = Set.filter (\<lambda>word. contains (lower answer) word) long_words
      in if long_words = {} then 0
         else real (card found) / real (card long_words) * 0.1)"

section \<open>The four ask operations (core/enhanced\_rag\_chain.py)\<close>

record citation =
  chunk_id :: nat
  content :: string
  source :: meta_value
  chunk_index :: meta_value
  citation_method :: string
  rerank_score :: "real option"

record answer_result =
  question :: string
  answer :: string
  citations :: "citation list"
  confidence :: real
  response_time :: real
  source_count :: nat
  tokens_used :: "int option"
  retrieval_method :: string

text \<open>\<open>str(n)\<close> of a natural number, and \<open>sep.join(parts)\<close>.\<close>

function str_nat :: "nat \<Rightarrow> string" where
  "str_nat n =
     (if n < 10 then [char_of (48 + n)] else str_nat (n div 10) @ [char_of (48 + n mod 10)])"
  by pat_completeness auto
termination
  by (relation "measure (\<lambda>n. n)") auto

fun join :: "string \<Rightarrow> string list \<Rightarrow> string" where
  "join sep [] = []"
| "join sep [part] = part"
| "join sep (part # rest) = part @ sep @ join sep rest"

text \<open>\<open>round(score, 3)\<close>: to three decimals, a tie going to the even neighbour.\<close>

definition round3 :: "real \<Rightarrow> real" where
  "round3 x =
     (let y = x * 1000; f = \<lfloor>y\<rfloor>
      in (if y - of_int f < 1 / 2 then of_int f
          else if 1 / 2 < y - of_int f then of_int (f + 1)
          else if even f then of_int f else of_int (f + 1)) / 1000)"

definition truncate_content :: "string \<Rightarrow> string" where
  "truncate_content c = (if 200 < length c then take 200 c @ ''...'' else c)"

definition context_part :: "nat \<Rightarrow> document \<Rightarrow> string" where
  "context_part i doc =
     ''Document fragment '' @ str_nat (i + 1) @ '':'' @ [CHR 0x0A] @ page_content doc"

definition build_context :: "document list \<Rightarrow> string" where
  "build_context docs =
     join [CHR 0x0A, CHR 0x0A] (map (\<lambda>(i, doc). context_part i doc) (enumerate 0 docs))"

definition system_prompt_format :: "string \<Rightarrow> string \<Rightarrow> string" where
  "system_prompt_format ctx q =
     ''You are a professional assistant. Answer the question from the documents below only.''
     @ [CHR 0x0A, CHR 0x0A] @ ''Documents:'' @ [CHR 0x0A] @ ctx
     @ [CHR 0x0A, CHR 0x0A] @ ''Question: '' @ q
     @ [CHR 0x0A, CHR 0x0A] @ ''Answer:''"

definition make_citation :: "string \<Rightarrow> real option \<Rightarrow> nat \<Rightarrow> document \<Rightarrow> citation" where
  "make_citation tag score i doc =
     \<lparr>chunk_id = i,
      content = truncate_content (page_content doc),
      source = metadata_get doc ''source_file'' (MStr ''unknown''),
      chunk_index = metadata_get doc ''chunk_id'' (MInt (int i)),
      citation_method = tag,
      rerank_score = score\<rparr>"

text \<open>
  The citations of \<open>ask_basic\<close> and \<open>ask_hyde\<close> (over \<open>enumerate(source_docs)\<close>, no score)
  and of \<open>ask_rerank\<close> and \<open>ask_enhanced\<close> (over \<open>enumerate(ranked_docs)\<close>, the score
  rounded).
\<close>

definition citations_plain :: "string \<Rightarrow> document list \<Rightarrow> citation list" where
  "citations_plain tag source_docs =
     map (\<lambda>(i, doc). make_citation tag None i doc) (enumerate 0 source_docs)"

definition citations_ranked :: "string \<Rightarrow> (document \<times> real) list \<Rightarrow> citation list" where
  "citations_ranked tag ranked_docs =
     map (\<lambda>(i, (doc, score)). make_citation tag (Some (round3 score)) i doc)
       (enumerate 0 ranked_docs)"

text \<open>
  The steps every ask operation ends with, inside its \<open>try\<close>: build the context, call the
  model, compute the confidence, pack the result. \<open>tag\<close> is the method name that the
  operation writes into the result and passes to the confidence estimator.
\<close>

definition generate_answer ::
  "settings \<Rightarrow> world \<Rightarrow> string \<Rightarrow> string \<Rightarrow> document list \<Rightarrow> citation list \<Rightarrow> error + answer_result" where
  "generate_answer s w tag q source_docs cits =
     (let full_prompt = system_prompt_format (build_context source_docs) q
      in case chat_create w (MODEL_NAME s) full_prompt 0.1 1000 of
           Inl e \<Rightarrow> Inl e
         | Inr response \<Rightarrow>
             (case calculate_enhanced_confidence s source_docs q (message_content response) tag of
                Inl e \<Rightarrow> Inl e
              | Inr conf \<Rightarrow>
                  Inr \<lparr>question = q,
                       answer = message_content response,
                       citations = cits,
                       confidence = conf,
                       response_time = time_generated w - time_start w,
                       source_count = length source_docs,
                       tokens_used = total_tokens response,
                       retrieval_method = tag\<rparr>))"

text \<open>The result of the \<open>except Exception as e\<close> branch.\<close>

definition error_result :: "world \<Rightarrow> string \<Rightarrow> string \<Rightarrow> error \<Rightarrow> answer_result" where
  "error_result w tag q e =
     \<lparr>question = q,
      answer = ''Sorry, an error occurred while answering the question: '' @ str_of_error e,
      citations = [],
      confidence = 0,
      response_time = time_failed w - time_start w,
      source_count = 0,
      tokens_used = Some 0,
      retrieval_method = tag\<rparr>"

definition catch :: "world \<Rightarrow> string \<Rightarrow> string \<Rightarrow> error + answer_result \<Rightarrow> answer_result" where
  "catch w tag q body = (case body of Inr result \<Rightarrow> result | Inl e \<Rightarrow> error_result w tag q e)"

text \<open>Each operation is its \<open>try\<close> block (\<open>_try\<close>) under the handler.\<close>

definition ask_basic_try :: "settings \<Rightarrow> world \<Rightarrow> string \<Rightarrow> error + answer_result" where
  "ask_basic_try s w q =
     (case similarity_search s w q (Some (TOP_K s)) of
        Inl e \<Rightarrow> Inl e
      | Inr source_docs \<Rightarrow>
          generate_answer s w ''basic'' q source_docs (citations_plain ''basic'' source_docs))"

definition ask_basic :: "settings \<Rightarrow> world \<Rightarrow> string \<Rightarrow> answer_result" where
  "ask_basic s w q = catch w ''basic'' q (ask_basic_try s w q)"

definition ask_hyde_try :: "settings \<Rightarrow> world \<Rightarrow> string \<Rightarrow> error + answer_result" where
  "ask_hyde_try s w q =
     (case hyde_retrieve s w q (Some (TOP_K s)) of
        Inl e \<Rightarrow> Inl e
      | Inr source_docs \<Rightarrow>
          generate_answer s w ''hyde'' q source_docs (citations_plain ''hyde'' source_docs))"

definition ask_hyde :: "settings \<Rightarrow> world \<Rightarrow> string \<Rightarrow> answer_result" where
  "ask_hyde s w q = catch w ''hyde'' q (ask_hyde_try s w q)"

definition ask_rerank_try :: "settings \<Rightarrow> world \<Rightarrow> string \<Rightarrow> error + answer_result" where
  "ask_rerank_try s w q =
     (case similarity_search s w q (Some (TOP_K s * 2)) of
        Inl e \<Rightarrow> Inl e
      | Inr candidate_docs \<Rightarrow>
          (let ranked_docs = simple_rerank q candidate_docs (Some (TOP_K s));
               source_docs = map fst ranked_docs
           in generate_answer s w ''rerank'' q source_docs
                (citations_ranked ''rerank'' ranked_docs)))"

definition ask_rerank :: "settings \<Rightarrow> world \<Rightarrow> string \<Rightarrow> answer_result" where
  "ask_rerank s w q = catch w ''rerank'' q (ask_rerank_try s w q)"

definition ask_enhanced_try :: "settings \<Rightarrow> world \<Rightarrow> string \<Rightarrow> error + answer_result" where
  "ask_enhanced_try s w q =
     (case hyde_retrieve s w q (Some (TOP_K s * 2)) of
        Inl e \<Rightarrow> Inl e
      | Inr candidate_docs \<Rightarrow>
          (let ranked_docs = simple_rerank q candidate_docs (Some (TOP_K s));
               source_docs = map fst ranked_docs
           in generate_answer s w ''hyde+rerank'' q source_docs
                (citations_ranked ''hyde+rerank'' ranked_docs)))"

definition ask_enhanced :: "settings \<Rightarrow> world \<Rightarrow> string \<Rightarrow> answer_result" where
  "ask_enhanced s w q = catch w ''hyde+rerank'' q (ask_enhanced_try s w q)"

section \<open>Mode selection and dispatch (app.py, display\_chat\_interface)\<close>






text \<open>
  The invariant of a result that the data model states: as many citations as
  \<open>source_count\<close> says, and at most the configured \<open>TOP_K\<close> of them.
\<close>

definition well_counted :: "settings \<Rightarrow> answer_result \<Rightarrow> bool" where
  "well_counted s r = (length (citations r) = source_count r \<and> int (source_count r) \<le> TOP_K s)"

section \<open>Example data\<close>

text \<open>
  A store of three chunks that answers every search with its first \<open>k\<close> chunks, a model
  that always gives the same answer, a model that is out of quota, and a store that
  cannot be reached.
\<close>

definition doc_a :: document where
  "doc_a = \<lparr>page_content = ''RAG combines retrieval and generation.'',
            metadata = [(''source_file'', MStr ''rag.txt'')]\<rparr>"

definition doc_b :: document where
  "doc_b = \<lparr>page_content = ''Bananas are yellow.'', metadata = []\<rparr>"

definition doc_c :: document where
  "doc_c = \<lparr>page_content = ''What is RAG'', metadata = [(''chunk_id'', MInt 7)]\<rparr>"

definition example_settings :: settings where
  "example_settings = \<lparr>TOP_K = 2, MODEL_NAME = ''gpt-3.5-turbo''\<rparr>"

definition example_store :: "string \<Rightarrow> int \<Rightarrow> error + document list" where
  "example_store query k =
     (if k < 0 then Inl (StoreUnavailable ''negative k'') else Inr (take (nat k) [doc_a, doc_b, doc_c]))"

definition example_chat :: "string \<Rightarrow> string \<Rightarrow> real \<Rightarrow> nat \<Rightarrow> error + chat_response" where
  "example_chat model prompt temperature max_tokens =
     Inr \<lparr>message_content = ''RAG combines retrieval with generation'', total_tokens = Some 42\<rparr>"

definition example_world :: world where
  "example_world =
     \<lparr>vectorstore_search = example_store,
      chat_create = example_chat,
      str_hash = (\<lambda>s. int (length s)),
      time_start = 10,
      time_generated = 12,
      time_failed = 13\<rparr>"

definition failing_world :: world where
  "failing_world =
     example_world\<lparr>chat_create := (\<lambda>model prompt temperature max_tokens. Inl (GenerationError ''quota exceeded''))\<rparr>"

definition unreachable_world :: world where
  "unreachable_world =
     example_world\<lparr>vectorstore_search := (\<lambda>query k. Inl (StoreUnavailable ''connection refused''))\<rparr>"

text \<open>
  A configuration with \<open>TOP_K = 0\<close>, and a store that answers every search, whatever
  its \<open>k\<close>, with one chunk.
\<close>

definition zero_settings :: settings where
  "zero_settings = \<lparr>TOP_K = 0, MODEL_NAME = ''gpt-3.5-turbo''\<rparr>"

definition eager_world :: world where
  "eager_world = example_world\<lparr>vectorstore_search := (\<lambda>query k. Inr [doc_a])\<rparr>"

section \<open>Properties of the reranker\<close>

lemma sorted_desc_sort: "sorted_wrt (\<lambda>a b. snd b \<le> snd a) (sort_by_score_desc xs)"
proof -
  have "sorted (map (\<lambda>p. - snd p) (sort_key (\<lambda>p. - snd p) xs))"
    by (rule sorted_sort_key)
  then show ?thesis
    by (simp add: sort_by_score_desc_def sorted_map)
qed

lemma filter_take_prefix: "prefix (filter P (take n xs)) (filter P xs)"
proof -
  have "filter P xs = filter P (take n xs) @ filter P (drop n xs)"
    by (metis append_take_drop_id filter_append)
  then show ?thesis
    by (simp add: prefix_def)
qed

lemma sort_by_score_desc_stable:
  "filter (\<lambda>p. snd p = v) (sort_by_score_desc xs) = filter (\<lambda>p. snd p = v) xs"
proof -
  have "filter (\<lambda>p. - snd p = - v) (sort_key (\<lambda>p. - snd p) xs) = filter (\<lambda>p. - snd p = - v) xs"
    by (rule sort_key_stable)
  then show ?thesis
    by (simp add: sort_by_score_desc_def)
qed

lemma simple_rerank_None: "simple_rerank q docs None = sort_by_score_desc (scored_docs q docs)"
  by (simp add: simple_rerank_def py_or_def slice_to_def scored_docs_def sort_by_score_desc_def)

lemma simple_rerank_zero: "simple_rerank q docs (Some 0) = sort_by_score_desc (scored_docs q docs)"
  by (simp add: simple_rerank_def py_or_def slice_to_def scored_docs_def sort_by_score_desc_def)

lemma simple_rerank_pos:
  "1 \<le> top_k \<Longrightarrow>
   simple_rerank q docs (Some top_k) = take (nat top_k) (sort_by_score_desc (scored_docs q docs))"
  by (simp add: simple_rerank_def py_or_def slice_to_def)

lemma set_slice_to: "set (slice_to xs k) \<subseteq> set xs"
  by (auto simp: slice_to_def dest: in_set_takeD)

lemma set_simple_rerank: "set (simple_rerank q docs top_k) \<subseteq> set (scored_docs q docs)"
proof -
  have "set (simple_rerank q docs top_k) \<subseteq> set (sort_by_score_desc (scored_docs q docs))"
    unfolding simple_rerank_def Let_def by (rule set_slice_to)
  then show ?thesis
    by (simp add: sort_by_score_desc_def)
qed

text \<open>
  Claim C5, as stated, fails: with \<open>top_k = 0\<close> the line \<open>top_k = top_k or len(documents)\<close>
  makes \<open>simple_rerank\<close> return every candidate, not \<open>min(0, len(candidates)) = 0\<close> of them.
\<close>

theorem simple_rerank_length_counterexample:
  "length (simple_rerank ''What is RAG?'' [doc_a] (Some 0)) \<noteq> nat (min 0 (int (length [doc_a])))"
  by (simp add: simple_rerank_zero sort_by_score_desc_def scored_docs_def)

text \<open>
  Claim C5, amended: for every query, candidate list and \<open>top_k \<ge> 1\<close>, \<open>simple_rerank\<close>
  returns exactly \<open>min(top_k, len(candidates))\<close> (chunk, score) pairs, sorted non-increasing
  by score, with ties in the original candidate order (for every score, the pairs of that
  score in the result are the first such pairs of the candidate list, in its order). The
  result is the first \<open>top_k\<close> pairs of the whole ranking, which \<open>top_k = None\<close> returns and
  which is a permutation of the scored candidates.
\<close>

theorem simple_rerank_sorted_stable:
  assumes "1 \<le> top_k"
  shows "length (simple_rerank q docs (Some top_k)) = min (nat top_k) (length docs)
    \<and> sorted_wrt (\<lambda>a b. snd b \<le> snd a) (simple_rerank q docs (Some top_k))
    \<and> (\<forall>v. prefix (filter (\<lambda>p. snd p = v) (simple_rerank q docs (Some top_k)))
                   (filter (\<lambda>p. snd p = v) (scored_docs q docs)))
    \<and> simple_rerank q docs (Some top_k) = take (nat top_k) (simple_rerank q docs None)
    \<and> mset (simple_rerank q docs None) = mset (scored_docs q docs)"
proof -
  let ?all = "sort_by_score_desc (scored_docs q docs)"
  have r: "simple_rerank q docs (Some top_k) = take (nat top_k) ?all"
    using assms by (rule simple_rerank_pos)
  have len: "length (take (nat top_k) ?all) = min (nat top_k) (length docs)"
    by (simp add: sort_by_score_desc_def scored_docs_def)
  have srt: "sorted_wrt (\<lambda>a b. snd b \<le> snd a) (take (nat top_k) ?all)"
    by (rule sorted_wrt_take [OF sorted_desc_sort])
  have stab: "prefix (filter (\<lambda>p. snd p = v) (take (nat top_k) ?all))
                     (filter (\<lambda>p. snd p = v) (scored_docs q docs))" for v
    using filter_take_prefix [of "\<lambda>p. snd p = v" "nat top_k" ?all]
    by (simp add: sort_by_score_desc_stable)
  have perm: "mset ?all = mset (scored_docs q docs)"
    by (simp add: sort_by_score_desc_def)
  show ?thesis
    unfolding r simple_rerank_None using len srt stab perm by simp
qed

text \<open>Witness for C5: three candidates, \<open>top_k = 2\<close>.\<close>

theorem simple_rerank_sorted_stable_witness:
  "(1::int) \<le> 2
   \<and> length (simple_rerank ''What is RAG?'' [doc_b, doc_a, doc_c] (Some 2))
       = min (nat 2) (length [doc_b, doc_a, doc_c])
   \<and> sorted_wrt (\<lambda>a b. snd b \<le> snd a) (simple_rerank ''What is RAG?'' [doc_b, doc_a, doc_c] (Some 2))"
proof -
  have h: "(1::int) \<le> 2" by simp
  show ?thesis
    using h simple_rerank_sorted_stable [OF h, of "''What is RAG?''" "[doc_b, doc_a, doc_c]"]
    by blast
qed

lemma simple_rerank_example:
  "simple_rerank ''What is RAG?'' [doc_b, doc_a, doc_c] (Some 2)
     = [(doc_c, 411 / 500), (doc_a, 333 / 1750)]"
  unfolding doc_a_def doc_b_def doc_c_def by code_simp

lemma jaccard_bounds: "finite A \<Longrightarrow> finite B \<Longrightarrow> 0 \<le> jaccard A B \<and> jaccard A B \<le> 1"
proof -
  assume fin: "finite A" "finite B"
  then have "card (A \<inter> B) \<le> card (A \<union> B)"
    by (intro card_mono) auto
  with fin show ?thesis
    by (simp add: jaccard_def divide_le_eq_1 card_gt_0_iff)
qed

lemma lexical_is_jaccard:
  "calculate_lexical_similarity query doc
     = jaccard (set (findall_w (lower query))) (set (findall_w (lower doc)))"
  by (auto simp: calculate_lexical_similarity_def jaccard_def Let_def)

text \<open>
  Claim C6: for every query and candidate chunk, the lexical rerank score is 0.8 times
  the Jaccard similarity of the lower-cased word-token sets of the query and of the chunk
  content, plus 0.2 times \<open>min(len(content)/100, 1.0)\<close>; it lies in \<open>[0, 1]\<close>; and it is the
  score that \<open>simple_rerank\<close> attaches to the chunk.
\<close>

theorem final_score_formula:
  "final_score query doc
     = 0.8 * jaccard (set (findall_w (lower query))) (set (findall_w (lower (page_content doc))))
       + 0.2 * min (real (length (page_content doc)) / 100) 1
   \<and> 0 \<le> final_score query doc \<and> final_score query doc \<le> 1
   \<and> (\<forall>p \<in> set (simple_rerank query documents top_k). snd p = final_score query (fst p))"
proof -
  let ?A = "set (findall_w (lower query))"
  let ?B = "set (findall_w (lower (page_content doc)))"
  have j: "0 \<le> jaccard ?A ?B \<and> jaccard ?A ?B \<le> 1"
    by (rule jaccard_bounds) simp_all
  have l: "0 \<le> length_factor doc \<and> length_factor doc \<le> 1"
    by (simp add: length_factor_def)
  have eq: "final_score query doc = 0.8 * jaccard ?A ?B + 0.2 * length_factor doc"
    by (simp add: final_score_def lexical_is_jaccard)
  have mem: "snd p = final_score query (fst p)"
    if "p \<in> set (simple_rerank query documents top_k)" for p
  proof -
    from that set_simple_rerank have "p \<in> set (scored_docs query documents)" by blast
    then show ?thesis by (auto simp: scored_docs_def)
  qed
  from j l have "0 \<le> 0.8 * jaccard ?A ?B + 0.2 * length_factor doc"
    and "0.8 * jaccard ?A ?B + 0.2 * length_factor doc \<le> 1"
    by simp_all
  with eq mem show ?thesis
    by (simp add: length_factor_def)
qed

text \<open>Witness for C6: a chunk of a ranking of three, and its score.\<close>

theorem final_score_formula_witness:
  "(doc_c, 411 / 500) \<in> set (simple_rerank ''What is RAG?'' [doc_b, doc_a, doc_c] (Some 2))
   \<and> final_score ''What is RAG?'' doc_c = 411 / 500
   \<and> 0 \<le> final_score ''What is RAG?'' doc_c \<and> final_score ''What is RAG?'' doc_c \<le> 1"
proof -
  have m: "(doc_c, 411 / 500) \<in> set (simple_rerank ''What is RAG?'' [doc_b, doc_a, doc_c] (Some 2))"
    by (simp add: simple_rerank_example)
  show ?thesis
    using m final_score_formula [of "''What is RAG?''" doc_c "[doc_b, doc_a, doc_c]" "Some 2"]
    by fastforce
qed

section \<open>Properties of the confidence estimator\<close>

lemma clamp_bounds: "0.1 \<le> min (max t 0.1) 0.95 \<and> min (max t 0.1) 0.95 \<le> (0.95::real)"
  by (simp add: min_def max_def)

text \<open>
  Claim C7: for every question, answer and method, the confidence estimator returns
  exactly 0.1 when \<open>source_docs\<close> is empty, and for every non-empty \<open>source_docs\<close> it
  returns a value in \<open>[0.1, 0.95]\<close>. The configured \<open>TOP_K\<close> is taken to be non-zero: the
  estimator divides by it.
\<close>

theorem confidence_range:
  "calculate_enhanced_confidence s [] q a m = Inr 0.1
   \<and> (docs \<noteq> [] \<and> TOP_K s \<noteq> 0 \<longrightarrow>
        (\<exists>c. calculate_enhanced_confidence s docs q a m = Inr c \<and> 0.1 \<le> c \<and> c \<le> 0.95))"
proof (intro conjI impI)
  show "calculate_enhanced_confidence s [] q a m = Inr 0.1"
    by (simp add: calculate_enhanced_confidence_def)
next
  assume h: "docs \<noteq> [] \<and> TOP_K s \<noteq> 0"
  define t where "t = doc_score s docs + relevance_score docs q + answer_length_score a
    + keyword_score q a + method_bonus m"
  from h have "calculate_enhanced_confidence s docs q a m = Inr (min (max t 0.1) 0.95)"
    by (simp add: calculate_enhanced_confidence_def Let_def t_def)
  with clamp_bounds [of t]
  show "\<exists>c. calculate_enhanced_confidence s docs q a m = Inr c \<and> 0.1 \<le> c \<and> c \<le> 0.95"
    by blast
qed

text \<open>Witness for C7: one chunk, \<open>TOP_K = 2\<close>.\<close>

theorem confidence_range_witness:
  "[doc_a] \<noteq> [] \<and> TOP_K example_settings \<noteq> 0
   \<and> (\<exists>c. calculate_enhanced_confidence example_settings [doc_a]
             ''What is RAG?'' ''RAG combines'' ''basic'' = Inr c
          \<and> 0.1 \<le> c \<and> c \<le> 0.95)"
proof -
  have h: "[doc_a] \<noteq> [] \<and> TOP_K example_settings \<noteq> 0"
    by (simp add: example_settings_def)
  show ?thesis
    using h confidence_range [of example_settings "''What is RAG?''" "''RAG combines''"
        "''basic''" "[doc_a]"]
    by blast
qed

text \<open>
  Claim C2 (the method bonus is +0.1 for both \<open>hyde\<close> and \<open>hyde+rerank\<close>) against the
  code: the estimator compares the method with \<open>"hyde"\<close> only, and \<open>ask_enhanced\<close> passes
  \<open>"hyde+rerank"\<close>, so the HyDE-based enhanced mode gets no bonus. In the example, the
  enhanced mode's confidence is 79/200, the sum of its other four components.
\<close>

theorem method_bonus_enhanced_is_zero:
  "method_bonus ''hyde'' = 0.1 \<and> method_bonus ''hyde+rerank'' = 0
   \<and> retrieval_method (ask_enhanced example_settings example_world ''What is RAG?'') = ''hyde+rerank''
   \<and> confidence (ask_enhanced example_settings example_world ''What is RAG?'') = 79 / 200"
  unfolding example_settings_def example_world_def example_store_def example_chat_def
    doc_a_def doc_b_def doc_c_def
  by code_simp

lemma finite_question_words: "finite (question_words q)"
  by (simp add: question_words_def)

lemma keyword_matches_le: "keyword_matches q a \<le> card (question_words q)"
  unfolding keyword_matches_def
  by (rule card_mono) (auto simp: question_words_def)

lemma keyword_score_eq:
  "keyword_score q a = real (keyword_matches q a) / real (max (card (question_words q)) 1) * 0.1"
proof -
  have "real (keyword_matches q a) \<le> real (max (card (question_words q)) 1)"
    using keyword_matches_le [of q a] by simp
  then have "real (keyword_matches q a) / real (max (card (question_words q)) 1) \<le> 1"
    by (simp add: divide_le_eq_1)
  then show ?thesis
    by (simp add: keyword_score_def min_def)
qed

lemma spec_found_eq:
  "Set.filter (\<lambda>word. contains (lower a) word)
     (Set.filter (\<lambda>word. 2 < length word) (question_words q))
   = Set.filter (\<lambda>word. 2 < length word \<and> contains (lower a) word) (question_words q)"
  by auto

lemma keyword_score_spec_eq:
  "keyword_score_spec q a =
     (if Set.filter (\<lambda>word. 2 < length word) (question_words q) = {} then 0
      else real (keyword_matches q a)
           / real (card (Set.filter (\<lambda>word. 2 < length word) (question_words q))) * 0.1)"
  unfolding keyword_score_spec_def Let_def spec_found_eq keyword_matches_def by simp

text \<open>
  Claim C4, as stated, fails: the code divides the number of matching long tokens by the
  number of all question tokens, not by the number of tokens longer than two characters.
  For the question \<open>is rag\<close> and the answer \<open>rag systems\<close> the code gives 0.05; the one
  token longer than two characters appears in the answer, so the stated fraction gives 0.1.
\<close>

theorem keyword_score_counterexample:
  "keyword_score ''is rag'' ''rag systems'' = 0.05
   \<and> keyword_score_spec ''is rag'' ''rag systems'' = 0.1
   \<and> keyword_score ''is rag'' ''rag systems'' \<noteq> keyword_score_spec ''is rag'' ''rag systems''"
  by code_simp

text \<open>
  Claim C4, amended: for every question and answer, the keyword component equals the
  number of distinct lower-cased question tokens that are longer than two characters and
  occur in the lower-cased answer, divided by the number of all distinct question tokens
  (by 1 when there is none), times 0.1. It lies in \<open>[0, 0.1]\<close>, and it is the fraction of
  the claim whenever every question token is longer than two characters.
\<close>

theorem keyword_score_formula:
  "keyword_score q a
     = real (card {word \<in> question_words q. 2 < length word \<and> contains (lower a) word})
       / real (max (card (question_words q)) 1) * 0.1
   \<and> 0 \<le> keyword_score q a \<and> keyword_score q a \<le> 0.1
   \<and> ((\<forall>word \<in> question_words q. 2 < length word)
        \<longrightarrow> keyword_score q a = keyword_score_spec q a)"
proof -
  let ?Q = "question_words q"
  let ?L = "Set.filter (\<lambda>word. 2 < length word) ?Q"
  have m: "keyword_matches q a = card {word \<in> ?Q. 2 < length word \<and> contains (lower a) word}"
    unfolding keyword_matches_def by (rule arg_cong [where f = card]) auto
  have eq: "keyword_score q a = real (keyword_matches q a) / real (max (card ?Q) 1) * 0.1"
    by (rule keyword_score_eq)
  have "real (keyword_matches q a) \<le> real (max (card ?Q) 1)"
    using keyword_matches_le [of q a] by simp
  then have frac: "real (keyword_matches q a) / real (max (card ?Q) 1) \<le> 1"
    by (simp add: divide_le_eq_1)
  have lo: "0 \<le> keyword_score q a"
    unfolding eq by simp
  have hi: "keyword_score q a \<le> 0.1"
    unfolding eq using frac by simp
  have same: "keyword_score q a = keyword_score_spec q a" if all: "\<forall>word \<in> ?Q. 2 < length word"
  proof -
    from all have L: "?L = ?Q" by auto
    show ?thesis
    proof (cases "?Q = {}")
      case True
      then have "keyword_matches q a = 0"
        by (simp add: keyword_matches_def)
      with True L show ?thesis
        by (simp add: eq keyword_score_spec_eq)
    next
      case False
      then have "0 < card ?Q"
        using finite_question_words [of q] by (simp add: card_gt_0_iff)
      then have "max (card ?Q) 1 = card ?Q" by simp
      with False L show ?thesis
        by (simp add: eq keyword_score_spec_eq)
    qed
  qed
  from eq m lo hi same show ?thesis by simp
qed

text \<open>Witness for C4: a question whose two tokens are both longer than two characters.\<close>

theorem keyword_score_formula_witness:
  "question_words ''what rag'' = {''what'', ''rag''}
   \<and> keyword_score ''what rag'' ''rag systems'' = keyword_score_spec ''what rag'' ''rag systems''
   \<and> keyword_score ''what rag'' ''rag systems'' = 0.05"
proof -
  have qw: "question_words ''what rag'' = {''what'', ''rag''}"
    by code_simp
  then have h: "\<forall>word \<in> question_words ''what rag''. 2 < length word"
    by simp
  have v: "keyword_score ''what rag'' ''rag systems'' = 0.05"
    by code_simp
  show ?thesis
    using qw h v keyword_score_formula [of "''what rag''" "''rag systems''"] by blast
qed

section \<open>Properties of the HyDE retriever\<close>

lemma py_or_simps:
  "py_or None d = d" "py_or (Some 0) d = d" "py_or (Some d) d = d"
  "k \<noteq> 0 \<Longrightarrow> py_or (Some k) d = k"
  by (simp_all add: py_or_def)

lemma dedup_loop_take:
  "int (length unique) < k \<Longrightarrow>
   dedup_loop h k ds unique seen
     = unique @ take (nat k - length unique) (first_seen_by (\<lambda>d. h (page_content d)) seen ds)"
proof (induction ds arbitrary: unique seen)
  case Nil
  then show ?case by simp
next
  case (Cons doc rest)
  show ?case
  proof (cases "h (page_content doc) \<in> seen")
    case True
    with Cons show ?thesis by simp
  next
    case False
    show ?thesis
    proof (cases "k \<le> int (length unique) + 1")
      case True
      with Cons.prems have "nat k - length unique = 1" by linarith
      with True False show ?thesis by simp
    next
      case stay: False
      then have lt: "int (length (unique @ [doc])) < k" by simp
      from stay Cons.prems have "nat k - length unique = Suc (nat k - length (unique @ [doc]))"
        by simp
      with False stay Cons.IH [OF lt] show ?thesis by simp
    qed
  qed
qed

lemma first_seen_by_keys:
  "distinct (map key (first_seen_by key seen ds)) \<and> key ` set (first_seen_by key seen ds) \<inter> seen = {}"
proof (induction ds arbitrary: seen)
  case Nil
  show ?case by simp
next
  case (Cons doc rest)
  from Cons [of seen] Cons [of "insert (key doc) seen"] show ?case
    by auto
qed

lemma first_seen_by_subseq: "subseq (first_seen_by key seen ds) ds"
  by (induction ds arbitrary: seen) auto

lemma distinct_contents:
  "distinct (map (\<lambda>d. h (page_content d)) xs) \<Longrightarrow> distinct (map page_content xs)"
  by (induction xs) auto

lemma first_seen_by_inj:
  "inj_on h (S \<union> page_content ` set ds) \<Longrightarrow>
   first_seen_by (\<lambda>d. h (page_content d)) (h ` S) ds = first_seen_by page_content S ds"
proof (induction ds arbitrary: S)
  case Nil
  show ?case by simp
next
  case (Cons doc rest)
  from Cons.prems have mem: "h (page_content doc) \<in> h ` S \<longleftrightarrow> page_content doc \<in> S"
    by (auto simp: inj_on_def)
  from Cons.prems have old: "inj_on h (S \<union> page_content ` set rest)"
    by (rule inj_on_subset) auto
  from Cons.prems have new: "inj_on h (insert (page_content doc) S \<union> page_content ` set rest)"
    by (rule inj_on_subset) auto
  have ins: "insert (h (page_content doc)) (h ` S) = h ` insert (page_content doc) S"
    by simp
  show ?case
    using mem Cons.IH [OF old] Cons.IH [OF new] unfolding ins [symmetric] by simp
qed

lemma hyde_retrieve_eq:
  assumes pos: "1 \<le> py_or k (TOP_K s)"
    and hr: "vectorstore_search w (generate_hypothetical_answer s w q) (2 * py_or k (TOP_K s)) = Inr hyde_results"
    and qr: "vectorstore_search w q (py_or k (TOP_K s)) = Inr question_results"
  shows "hyde_retrieve s w q k
    = Inr (take (nat (py_or k (TOP_K s)))
        (first_seen_by (\<lambda>d. str_hash w (page_content d)) {} (hyde_results @ question_results)))"
proof -
  let ?k = "py_or k (TOP_K s)"
  from pos have nz: "?k \<noteq> 0" "?k * 2 \<noteq> 0" by simp_all
  have s1: "similarity_search s w (generate_hypothetical_answer s w q) (Some (?k * 2)) = Inr hyde_results"
    using hr nz by (simp add: similarity_search_def py_or_simps mult.commute)
  have s2: "similarity_search s w q (Some ?k) = Inr question_results"
    using qr nz by (simp add: similarity_search_def py_or_simps)
  have "int (length ([]::document list)) < ?k" using pos by simp
  from dedup_loop_take [OF this]
  have d: "dedup_loop (str_hash w) ?k (hyde_results @ question_results) [] {}
    = take (nat ?k) (first_seen_by (\<lambda>d. str_hash w (page_content d)) {} (hyde_results @ question_results))"
    by simp
  from pos have "0 \<le> ?k" by simp
  then show ?thesis
    by (simp add: hyde_retrieve_def Let_def s1 s2 d slice_to_def)
qed

text \<open>
  Claim C8, as stated, fails at \<open>k = 0\<close>: \<open>k = k or settings.TOP_K\<close> replaces it by the
  configured \<open>TOP_K\<close>, and with \<open>TOP_K = 2\<close> the retriever returns two chunks, which is
  more than \<open>k = 0\<close>.
\<close>

theorem hyde_retrieve_zero_counterexample:
  "hyde_retrieve example_settings example_world ''What is RAG?'' (Some 0) = Inr [doc_a, doc_b]
   \<and> \<not> int (length [doc_a, doc_b]) \<le> 0"
  by code_simp

text \<open>
  Claim C8, amended: let \<open>k'\<close> be \<open>k\<close>, or the configured \<open>TOP_K\<close> when \<open>k\<close> is 0 or
  \<open>None\<close>, and let \<open>k' \<ge> 1\<close>. For every question, when the store answers the search for the
  hypothetical answer (requested with \<open>2k'\<close>) and the search for the original question
  (requested with \<open>k'\<close>), \<open>hyde_retrieve\<close> returns the first \<open>k'\<close> chunks of the
  concatenation, hypothetical-answer results first, deduplicated by the hash of the
  content in first-seen order: at most \<open>k'\<close> chunks, no two with identical content, a
  subsequence of the concatenation; and where the hash separates the contents at hand,
  this is deduplication by exact content.
\<close>

theorem hyde_retrieve_dedup:
  assumes pos: "1 \<le> py_or k (TOP_K s)"
    and hr: "vectorstore_search w (generate_hypothetical_answer s w q) (2 * py_or k (TOP_K s)) = Inr hyde_results"
    and qr: "vectorstore_search w q (py_or k (TOP_K s)) = Inr question_results"
  shows "\<exists>res. hyde_retrieve s w q k = Inr res
    \<and> res = take (nat (py_or k (TOP_K s)))
        (first_seen_by (\<lambda>d. str_hash w (page_content d)) {} (hyde_results @ question_results))
    \<and> int (length res) \<le> py_or k (TOP_K s)
    \<and> distinct (map page_content res)
    \<and> subseq res (hyde_results @ question_results)
    \<and> (inj_on (str_hash w) (page_content ` set (hyde_results @ question_results))
         \<longrightarrow> res = take (nat (py_or k (TOP_K s)))
               (first_seen_by page_content {} (hyde_results @ question_results)))"
proof -
  let ?k = "py_or k (TOP_K s)"
  let ?all = "hyde_results @ question_results"
  let ?u = "first_seen_by (\<lambda>d. str_hash w (page_content d)) {} ?all"
  let ?res = "take (nat ?k) ?u"
  have eq: "hyde_retrieve s w q k = Inr ?res"
    using assms by (rule hyde_retrieve_eq)
  have len: "int (length ?res) \<le> ?k"
    using pos by simp
  have "distinct (map (\<lambda>d. str_hash w (page_content d)) ?u)"
    using first_seen_by_keys [of "\<lambda>d. str_hash w (page_content d)" "{}" ?all] by simp
  then have "distinct (map page_content ?u)"
    by (rule distinct_contents)
  then have dis: "distinct (map page_content ?res)"
    by (simp add: take_map [symmetric] distinct_take)
  have "subseq ?res ?u"
    by (metis append_take_drop_id subseq_rev_drop_many subseq_order.order_refl)
  then have sub: "subseq ?res ?all"
    using first_seen_by_subseq [of "\<lambda>d. str_hash w (page_content d)" "{}" ?all]
    by (rule subseq_order.order_trans)
  have inj: "?res = take (nat ?k) (first_seen_by page_content {} ?all)"
    if "inj_on (str_hash w) (page_content ` set ?all)"
  proof -
    from that have "inj_on (str_hash w) ({} \<union> page_content ` set ?all)" by simp
    from first_seen_by_inj [OF this] show ?thesis by simp
  qed
  from eq len dis sub inj show ?thesis by blast
qed

text \<open>
  Witness for C8: the example store and \<open>k = 3\<close>; the example hash, the length of the
  content, separates the three contents.
\<close>

theorem hyde_retrieve_dedup_witness:
  "1 \<le> py_or (Some 3) (TOP_K example_settings)
   \<and> vectorstore_search example_world
        (generate_hypothetical_answer example_settings example_world ''What is RAG?'')
        (2 * py_or (Some 3) (TOP_K example_settings)) = Inr [doc_a, doc_b, doc_c]
   \<and> vectorstore_search example_world ''What is RAG?'' (py_or (Some 3) (TOP_K example_settings))
        = Inr [doc_a, doc_b, doc_c]
   \<and> inj_on (str_hash example_world)
        (page_content ` set ([doc_a, doc_b, doc_c] @ [doc_a, doc_b, doc_c]))
   \<and> (\<exists>res. hyde_retrieve example_settings example_world ''What is RAG?'' (Some 3) = Inr res
         \<and> int (length res) \<le> 3 \<and> distinct (map page_content res)
         \<and> subseq res ([doc_a, doc_b, doc_c] @ [doc_a, doc_b, doc_c])
         \<and> res = take (nat 3)
             (first_seen_by page_content {} ([doc_a, doc_b, doc_c] @ [doc_a, doc_b, doc_c])))"
proof -
  have k: "py_or (Some 3) (TOP_K example_settings) = 3"
    by (simp add: py_or_def)
  have h1: "1 \<le> py_or (Some 3) (TOP_K example_settings)"
    by (simp add: k)
  have h2: "vectorstore_search example_world
        (generate_hypothetical_answer example_settings example_world ''What is RAG?'')
        (2 * py_or (Some 3) (TOP_K example_settings)) = Inr [doc_a, doc_b, doc_c]"
    by (simp add: k example_world_def example_store_def)
  have h3: "vectorstore_search example_world ''What is RAG?'' (py_or (Some 3) (TOP_K example_settings))
        = Inr [doc_a, doc_b, doc_c]"
    by (simp add: k example_world_def example_store_def)
  have h4: "inj_on (str_hash example_world)
        (page_content ` set ([doc_a, doc_b, doc_c] @ [doc_a, doc_b, doc_c]))"
    by (auto simp: inj_on_def example_world_def doc_a_def doc_b_def doc_c_def)
  show ?thesis
    using h1 h2 h3 h4 hyde_retrieve_dedup [OF h1 h2 h3] unfolding k by blast
qed

section \<open>Defaults for a falsy \<open>k\<close>\<close>

lemma first_seen_by_nonempty: "ds \<noteq> [] \<Longrightarrow> first_seen_by key {} ds \<noteq> []"
  by (cases ds) simp_all

text \<open>
  Claim C10: a \<open>k\<close> or \<open>top_k\<close> argument of 0 or \<open>None\<close> is replaced by a default and
  does not give an empty result: \<open>similarity_search(query, 0)\<close> searches the store with
  \<open>settings.TOP_K\<close>; \<open>hyde_retrieve(question, 0)\<close> behaves as with \<open>k = settings.TOP_K\<close>,
  that is, it searches the store with \<open>2 * TOP_K\<close> for the hypothetical answer and with
  \<open>TOP_K\<close> for the question and returns the first \<open>TOP_K\<close> chunks of the deduplicated
  concatenation, which is not empty when the store found a chunk; and
  \<open>simple_rerank(query, documents, 0)\<close> behaves as with \<open>top_k = len(documents)\<close> and
  returns all candidates.
\<close>

theorem falsy_k_defaults:
  "similarity_search s w q (Some 0) = similarity_search s w q (Some (TOP_K s))
   \<and> similarity_search s w q None = similarity_search s w q (Some (TOP_K s))
   \<and> similarity_search s w q (Some 0) = vectorstore_search w q (TOP_K s)
   \<and> hyde_retrieve s w q (Some 0) = hyde_retrieve s w q (Some (TOP_K s))
   \<and> hyde_retrieve s w q None = hyde_retrieve s w q (Some (TOP_K s))
   \<and> (1 \<le> TOP_K s
        \<and> vectorstore_search w (generate_hypothetical_answer s w q) (2 * TOP_K s) = Inr hyde_results
        \<and> vectorstore_search w q (TOP_K s) = Inr question_results
        \<longrightarrow> hyde_retrieve s w q (Some 0)
              = Inr (take (nat (TOP_K s))
                  (first_seen_by (\<lambda>d. str_hash w (page_content d)) {}
                     (hyde_results @ question_results)))
            \<and> hyde_retrieve s w q None = hyde_retrieve s w q (Some 0)
            \<and> (hyde_results @ question_results \<noteq> [] \<longrightarrow> hyde_retrieve s w q (Some 0) \<noteq> Inr []))
   \<and> simple_rerank q docs (Some 0) = simple_rerank q docs (Some (int (length docs)))
   \<and> simple_rerank q docs None = simple_rerank q docs (Some (int (length docs)))
   \<and> length (simple_rerank q docs (Some 0)) = length docs
   \<and> mset (map fst (simple_rerank q docs (Some 0))) = mset docs"
proof -
  have ss: "similarity_search s w q (Some 0) = vectorstore_search w q (TOP_K s)"
    "similarity_search s w q None = vectorstore_search w q (TOP_K s)"
    "similarity_search s w q (Some (TOP_K s)) = vectorstore_search w q (TOP_K s)"
    by (simp_all add: similarity_search_def py_or_simps)
  have hy: "hyde_retrieve s w q (Some 0) = hyde_retrieve s w q (Some (TOP_K s))"
    "hyde_retrieve s w q None = hyde_retrieve s w q (Some (TOP_K s))"
    by (simp_all add: hyde_retrieve_def py_or_simps)
  have tied: "hyde_retrieve s w q (Some 0)
              = Inr (take (nat (TOP_K s))
                  (first_seen_by (\<lambda>d. str_hash w (page_content d)) {}
                     (hyde_results @ question_results)))
            \<and> hyde_retrieve s w q None = hyde_retrieve s w q (Some 0)
            \<and> (hyde_results @ question_results \<noteq> [] \<longrightarrow> hyde_retrieve s w q (Some 0) \<noteq> Inr [])"
    if h: "1 \<le> TOP_K s
        \<and> vectorstore_search w (generate_hypothetical_answer s w q) (2 * TOP_K s) = Inr hyde_results
        \<and> vectorstore_search w q (TOP_K s) = Inr question_results"
  proof -
    let ?u = "first_seen_by (\<lambda>d. str_hash w (page_content d)) {} (hyde_results @ question_results)"
    have p: "py_or (Some 0) (TOP_K s) = TOP_K s" by (simp add: py_or_simps)
    from h have eq: "hyde_retrieve s w q (Some 0) = Inr (take (nat (TOP_K s)) ?u)"
      using hyde_retrieve_eq [of "Some 0" s w q hyde_results question_results]
      unfolding p by blast
    have ne: "take (nat (TOP_K s)) ?u \<noteq> []" if "hyde_results @ question_results \<noteq> []"
    proof -
      from that have "?u \<noteq> []" by (rule first_seen_by_nonempty)
      moreover from h have "0 < nat (TOP_K s)" by simp
      ultimately show ?thesis by (cases ?u) simp_all
    qed
    from hy have same: "hyde_retrieve s w q None = hyde_retrieve s w q (Some 0)" by simp
    from ne have "hyde_results @ question_results \<noteq> [] \<longrightarrow> hyde_retrieve s w q (Some 0) \<noteq> Inr []"
      unfolding eq by simp
    with eq same show ?thesis by blast
  qed
  have rr: "simple_rerank q docs (Some 0) = simple_rerank q docs (Some (int (length docs)))"
    "simple_rerank q docs None = simple_rerank q docs (Some (int (length docs)))"
    by (simp_all add: simple_rerank_def py_or_simps)
  have len: "length (simple_rerank q docs (Some 0)) = length docs"
    by (simp add: simple_rerank_zero sort_by_score_desc_def scored_docs_def)
  have "mset (simple_rerank q docs (Some 0)) = mset (scored_docs q docs)"
    by (simp add: simple_rerank_zero sort_by_score_desc_def)
  then have "mset (map fst (simple_rerank q docs (Some 0))) = mset (map fst (scored_docs q docs))"
    by (simp only: mset_map)
  then have ms: "mset (map fst (simple_rerank q docs (Some 0))) = mset docs"
    by (simp add: scored_docs_def comp_def)
  have s1: "similarity_search s w q (Some 0) = similarity_search s w q (Some (TOP_K s))"
    and s2: "similarity_search s w q None = similarity_search s w q (Some (TOP_K s))"
    by (simp_all add: ss)
  from s1 s2 ss(1) hy tied rr len ms show ?thesis by blast
qed

text \<open>
  Witness for C10: the example store with \<open>TOP_K = 2\<close>, where \<open>hyde_retrieve\<close> with
  \<open>k = 0\<close> returns two chunks, and three candidates for the reranker.
\<close>

theorem falsy_k_defaults_witness:
  "similarity_search example_settings example_world ''What is RAG?'' (Some 0)
     = vectorstore_search example_world ''What is RAG?'' (TOP_K example_settings)
   \<and> vectorstore_search example_world ''What is RAG?'' (TOP_K example_settings) = Inr [doc_a, doc_b]
   \<and> 1 \<le> TOP_K example_settings
   \<and> vectorstore_search example_world
        (generate_hypothetical_answer example_settings example_world ''What is RAG?'')
        (2 * TOP_K example_settings) = Inr [doc_a, doc_b, doc_c]
   \<and> [doc_a, doc_b, doc_c] @ [doc_a, doc_b] \<noteq> []
   \<and> hyde_retrieve example_settings example_world ''What is RAG?'' (Some 0) = Inr [doc_a, doc_b]
   \<and> hyde_retrieve example_settings example_world ''What is RAG?'' None = Inr [doc_a, doc_b]
   \<and> hyde_retrieve example_settings example_world ''What is RAG?'' (Some (TOP_K example_settings))
       = Inr [doc_a, doc_b]
   \<and> hyde_retrieve example_settings example_world ''What is RAG?'' (Some 0) \<noteq> Inr []
   \<and> length (simple_rerank ''What is RAG?'' [doc_b, doc_a, doc_c] (Some 0))
       = length [doc_b, doc_a, doc_c]"
proof -
  let ?q = "''What is RAG?''"
  have k: "TOP_K example_settings = 2"
    by (simp add: example_settings_def)
  have h1: "1 \<le> TOP_K example_settings"
    by (simp add: k)
  have h2: "vectorstore_search example_world
        (generate_hypothetical_answer example_settings example_world ?q)
        (2 * TOP_K example_settings) = Inr [doc_a, doc_b, doc_c]"
    by (simp add: k example_world_def example_store_def)
  have h3: "vectorstore_search example_world ?q (TOP_K example_settings) = Inr [doc_a, doc_b]"
    by (simp add: k example_world_def example_store_def)
  have h4: "[doc_a, doc_b, doc_c] @ [doc_a, doc_b] \<noteq> []"
    by simp
  have v: "take (nat (TOP_K example_settings))
      (first_seen_by (\<lambda>d. str_hash example_world (page_content d)) {}
         ([doc_a, doc_b, doc_c] @ [doc_a, doc_b])) = [doc_a, doc_b]"
    unfolding k by code_simp
  note t = falsy_k_defaults [of example_settings example_world ?q "[doc_a, doc_b, doc_c]"
      "[doc_a, doc_b]" "[doc_b, doc_a, doc_c]"]
  from t h1 h2 h3 h4
  have r0: "hyde_retrieve example_settings example_world ?q (Some 0) = Inr [doc_a, doc_b]"
    unfolding v by blast
  from t h1 h2 h3 h4
  have rn: "hyde_retrieve example_settings example_world ?q None
      = hyde_retrieve example_settings example_world ?q (Some 0)"
    and rk: "hyde_retrieve example_settings example_world ?q (Some 0)
      = hyde_retrieve example_settings example_world ?q (Some (TOP_K example_settings))"
    and ne: "hyde_retrieve example_settings example_world ?q (Some 0) \<noteq> Inr []"
    and s0: "similarity_search example_settings example_world ?q (Some 0)
      = vectorstore_search example_world ?q (TOP_K example_settings)"
    and ln: "length (simple_rerank ?q [doc_b, doc_a, doc_c] (Some 0)) = length [doc_b, doc_a, doc_c]"
    by blast+
  from r0 rn rk ne s0 ln h1 h2 h3 h4 show ?thesis
    by simp
qed


section \<open>Properties of the ask operations\<close>

lemma length_citations_plain: "length (citations_plain tag docs) = length docs"
  by (simp add: citations_plain_def)

lemma length_citations_ranked: "length (citations_ranked tag ranked) = length ranked"
  by (simp add: citations_ranked_def)

lemma generate_answer_fields:
  "generate_answer s w tag q docs cits = Inr r \<Longrightarrow>
   citations r = cits \<and> source_count r = length docs \<and> retrieval_method r = tag \<and> question r = q"
  by (auto simp: generate_answer_def Let_def split: sum.splits)

lemma well_counted_error: "0 \<le> TOP_K s \<Longrightarrow> well_counted s (error_result w tag q e)"
  by (simp add: well_counted_def error_result_def)

lemma well_counted_catch:
  assumes "0 \<le> TOP_K s"
    and "\<And>r. body = Inr r \<Longrightarrow> well_counted s r"
  shows "well_counted s (catch w tag q body)"
  using assms by (cases body) (simp_all add: catch_def well_counted_error)

lemma length_slice_to: "0 \<le> k \<Longrightarrow> int (length (slice_to xs k)) \<le> k"
  by (simp add: slice_to_def)

lemma hyde_retrieve_length:
  "hyde_retrieve s w q k = Inr res \<Longrightarrow> 0 \<le> py_or k (TOP_K s) \<Longrightarrow>
   int (length res) \<le> py_or k (TOP_K s)"
  by (auto simp: hyde_retrieve_def Let_def length_slice_to split: sum.splits)

lemma simple_rerank_length_le:
  "0 \<le> top_k \<Longrightarrow> (top_k = 0 \<Longrightarrow> docs = []) \<Longrightarrow>
   int (length (simple_rerank q docs (Some top_k))) \<le> top_k"
  by (cases "top_k = 0")
    (simp_all add: simple_rerank_def py_or_def length_slice_to scored_docs_def
      sort_by_score_desc_def slice_to_def)

lemma ask_basic_counted:
  assumes k: "0 \<le> TOP_K s" and st: "store_respects_k w"
  shows "well_counted s (ask_basic s w q)"
  unfolding ask_basic_def
proof (rule well_counted_catch [OF k])
  fix r assume body: "ask_basic_try s w q = Inr r"
  then obtain docs where d: "vectorstore_search w q (TOP_K s) = Inr docs"
    and g: "generate_answer s w ''basic'' q docs (citations_plain ''basic'' docs) = Inr r"
    by (auto simp: ask_basic_try_def similarity_search_def py_or_simps split: sum.splits)
  from st k d have "int (length docs) \<le> TOP_K s"
    unfolding store_respects_k_def by blast
  with generate_answer_fields [OF g] show "well_counted s r"
    by (simp add: well_counted_def length_citations_plain)
qed

lemma ask_hyde_counted:
  assumes k: "0 \<le> TOP_K s"
  shows "well_counted s (ask_hyde s w q)"
  unfolding ask_hyde_def
proof (rule well_counted_catch [OF k])
  fix r assume body: "ask_hyde_try s w q = Inr r"
  then obtain docs where d: "hyde_retrieve s w q (Some (TOP_K s)) = Inr docs"
    and g: "generate_answer s w ''hyde'' q docs (citations_plain ''hyde'' docs) = Inr r"
    by (auto simp: ask_hyde_try_def split: sum.splits)
  from hyde_retrieve_length [OF d] k have "int (length docs) \<le> TOP_K s"
    by (simp add: py_or_simps)
  with generate_answer_fields [OF g] show "well_counted s r"
    by (simp add: well_counted_def length_citations_plain)
qed

lemma ranked_counted:
  assumes k: "0 \<le> TOP_K s" and z: "TOP_K s = 0 \<Longrightarrow> cands = []"
    and g: "generate_answer s w tag q (map fst (simple_rerank q cands (Some (TOP_K s))))
              (citations_ranked tag (simple_rerank q cands (Some (TOP_K s)))) = Inr r"
  shows "well_counted s r"
proof -
  have "int (length (simple_rerank q cands (Some (TOP_K s)))) \<le> TOP_K s"
    using k z by (rule simple_rerank_length_le)
  with generate_answer_fields [OF g] show ?thesis
    by (simp add: well_counted_def length_citations_ranked)
qed

lemma ask_rerank_counted:
  assumes k: "0 \<le> TOP_K s" and st: "store_respects_k w"
  shows "well_counted s (ask_rerank s w q)"
  unfolding ask_rerank_def
proof (rule well_counted_catch [OF k])
  fix r assume body: "ask_rerank_try s w q = Inr r"
  then obtain cands where d: "similarity_search s w q (Some (TOP_K s * 2)) = Inr cands"
    and g: "generate_answer s w ''rerank'' q (map fst (simple_rerank q cands (Some (TOP_K s))))
              (citations_ranked ''rerank'' (simple_rerank q cands (Some (TOP_K s)))) = Inr r"
    by (auto simp: ask_rerank_try_def Let_def split: sum.splits)
  have z: "cands = []" if "TOP_K s = 0"
  proof -
    from that d have "vectorstore_search w q 0 = Inr cands"
      by (simp add: similarity_search_def py_or_simps)
    with st have "int (length cands) \<le> 0"
      unfolding store_respects_k_def by blast
    then show ?thesis by simp
  qed
  from k z g show "well_counted s r" by (rule ranked_counted)
qed

lemma ask_enhanced_counted:
  assumes k: "0 \<le> TOP_K s"
  shows "well_counted s (ask_enhanced s w q)"
  unfolding ask_enhanced_def
proof (rule well_counted_catch [OF k])
  fix r assume body: "ask_enhanced_try s w q = Inr r"
  then obtain cands where d: "hyde_retrieve s w q (Some (TOP_K s * 2)) = Inr cands"
    and g: "generate_answer s w ''hyde+rerank'' q (map fst (simple_rerank q cands (Some (TOP_K s))))
              (citations_ranked ''hyde+rerank'' (simple_rerank q cands (Some (TOP_K s)))) = Inr r"
    by (auto simp: ask_enhanced_try_def Let_def split: sum.splits)
  have z: "cands = []" if "TOP_K s = 0"
  proof -
    from that hyde_retrieve_length [OF d] have "int (length cands) \<le> 0"
      by (simp add: py_or_simps)
    then show ?thesis by simp
  qed
  from k z g show "well_counted s r" by (rule ranked_counted)
qed

lemma example_store_respects_k: "store_respects_k example_world"
  by (auto simp: store_respects_k_def example_world_def example_store_def split: if_splits)

text \<open>
  Claim C1: for every question, each of \<open>ask_basic\<close>, \<open>ask_hyde\<close>, \<open>ask_rerank\<close> and
  \<open>ask_enhanced\<close> returns a result with as many citations as \<open>source_count\<close> and with
  \<open>source_count\<close> at most the configured \<open>TOP_K\<close>; so does the result of the error path,
  where both are zero. The configured \<open>TOP_K\<close> is a count (not negative) and the store
  keeps its contract, at most \<open>k\<close> chunks for a search with \<open>k\<close>.
\<close>

theorem citations_match_source_count:
  assumes "0 \<le> TOP_K s" and "store_respects_k w"
  shows "well_counted s (ask_basic s w q) \<and> well_counted s (ask_hyde s w q)
    \<and> well_counted s (ask_rerank s w q) \<and> well_counted s (ask_enhanced s w q)
    \<and> well_counted s (error_result w tag q e)
    \<and> citations (error_result w tag q e) = [] \<and> source_count (error_result w tag q e) = 0"
  using assms
  by (simp add: ask_basic_counted ask_hyde_counted ask_rerank_counted ask_enhanced_counted
      well_counted_error) (simp add: error_result_def)

text \<open>
  Witness for C1: the example store with \<open>TOP_K = 2\<close>; a successful \<open>ask_basic\<close> and a
  failed \<open>ask_enhanced\<close>.
\<close>

theorem citations_match_source_count_witness:
  "0 \<le> TOP_K example_settings \<and> store_respects_k example_world
   \<and> length (citations (ask_basic example_settings example_world ''What is RAG?''))
       = source_count (ask_basic example_settings example_world ''What is RAG?'')
   \<and> int (source_count (ask_basic example_settings example_world ''What is RAG?''))
       \<le> TOP_K example_settings
   \<and> source_count (ask_basic example_settings example_world ''What is RAG?'') = 2
   \<and> source_count (ask_enhanced example_settings failing_world ''What is RAG?'') = 0"
proof -
  have h1: "0 \<le> TOP_K example_settings"
    by (simp add: example_settings_def)
  have h2: "store_respects_k example_world"
    by (rule example_store_respects_k)
  have v: "source_count (ask_basic example_settings example_world ''What is RAG?'') = 2"
    by code_simp
  have f: "source_count (ask_enhanced example_settings failing_world ''What is RAG?'') = 0"
    by code_simp
  show ?thesis
    using h1 h2 v f citations_match_source_count [OF h1 h2, of "''What is RAG?''"]
    unfolding well_counted_def by blast
qed


lemma generate_answer_raises:
  "chat_create w (MODEL_NAME s) (system_prompt_format (build_context docs) q) 0.1 1000 = Inl e
   \<Longrightarrow> generate_answer s w tag q docs cits = Inl e"
  by (simp add: generate_answer_def)

lemma catch_Inl: "body = Inl e \<Longrightarrow> catch w tag q body = error_result w tag q e"
  by (simp add: catch_def)

lemma generate_answer_confidence_raises:
  "chat_create w (MODEL_NAME s) (system_prompt_format (build_context docs) q) 0.1 1000 = Inr resp
   \<Longrightarrow> calculate_enhanced_confidence s docs q (message_content resp) tag = Inl e
   \<Longrightarrow> generate_answer s w tag q docs cits = Inl e"
  by (simp add: generate_answer_def)

lemma slice_to_zero: "slice_to xs 0 = []"
  by (simp add: slice_to_def)

lemma hyde_retrieve_zero_empty:
  "hyde_retrieve s w q k = Inr docs \<Longrightarrow> py_or k (TOP_K s) = 0 \<Longrightarrow> docs = []"
  by (auto simp: hyde_retrieve_def Let_def slice_to_zero split: sum.splits)

lemma confidence_returns:
  assumes "TOP_K s = 0 \<longrightarrow> docs = []"
  shows "\<exists>c. calculate_enhanced_confidence s docs q a tag = Inr c"
proof (cases "docs = []")
  case True
  then have "calculate_enhanced_confidence s docs q a tag = Inr 0.1"
    by (simp add: calculate_enhanced_confidence_def)
  then show ?thesis ..
next
  case False
  with assms have "TOP_K s \<noteq> 0" by blast
  with False have "calculate_enhanced_confidence s docs q a tag
    = Inr (min (max (doc_score s docs + relevance_score docs q + answer_length_score a
        + keyword_score q a + method_bonus tag) 0.1) 0.95)"
    by (simp add: calculate_enhanced_confidence_def Let_def)
  then show ?thesis ..
qed

text \<open>
  Claim C9: for every question, when a step inside the \<open>try\<close> block of an ask operation
  raises, the operation returns the result of its handler: the answer is the error
  message built from the exception, the confidence is exactly 0, the citations are
  empty, \<open>source_count\<close> is 0 and \<open>response_time\<close> is the handler's clock reading minus the
  reading on entry. The operations are total functions into results: nothing
  propagates. This is stated for the \<open>try\<close> block as a whole and for each step of each
  operation: the retrieval call raises; the retrieval returns and the generation call
  raises; for \<open>ask_basic\<close> and \<open>ask_rerank\<close>, both return and the confidence estimator
  raises (its division by \<open>TOP_K\<close>). In \<open>ask_hyde\<close> and \<open>ask_enhanced\<close> the estimator
  cannot raise, since a HyDE retrieval under \<open>TOP_K = 0\<close> is empty. The lexical reranker
  has no raising branch.
\<close>

theorem ask_failure_result:
  "(ask_basic_try s w q = Inl e \<longrightarrow> ask_basic s w q = error_result w ''basic'' q e)
   \<and> (ask_hyde_try s w q = Inl e \<longrightarrow> ask_hyde s w q = error_result w ''hyde'' q e)
   \<and> (ask_rerank_try s w q = Inl e \<longrightarrow> ask_rerank s w q = error_result w ''rerank'' q e)
   \<and> (ask_enhanced_try s w q = Inl e \<longrightarrow> ask_enhanced s w q = error_result w ''hyde+rerank'' q e)
   \<and> (similarity_search s w q (Some (TOP_K s)) = Inl e
        \<longrightarrow> ask_basic s w q = error_result w ''basic'' q e)
   \<and> (hyde_retrieve s w q (Some (TOP_K s)) = Inl e
        \<longrightarrow> ask_hyde s w q = error_result w ''hyde'' q e)
   \<and> (similarity_search s w q (Some (TOP_K s * 2)) = Inl e
        \<longrightarrow> ask_rerank s w q = error_result w ''rerank'' q e)
   \<and> (hyde_retrieve s w q (Some (TOP_K s * 2)) = Inl e
        \<longrightarrow> ask_enhanced s w q = error_result w ''hyde+rerank'' q e)
   \<and> (similarity_search s w q (Some (TOP_K s)) = Inr docs
        \<and> chat_create w (MODEL_NAME s) (system_prompt_format (build_context docs) q) 0.1 1000 = Inl e
        \<longrightarrow> ask_basic s w q = error_result w ''basic'' q e)
   \<and> (hyde_retrieve s w q (Some (TOP_K s)) = Inr docs
        \<and> chat_create w (MODEL_NAME s) (system_prompt_format (build_context docs) q) 0.1 1000 = Inl e
        \<longrightarrow> ask_hyde s w q = error_result w ''hyde'' q e)
   \<and> (similarity_search s w q (Some (TOP_K s * 2)) = Inr docs
        \<and> chat_create w (MODEL_NAME s)
             (system_prompt_format
                (build_context (map fst (simple_rerank q docs (Some (TOP_K s))))) q) 0.1 1000 = Inl e
        \<longrightarrow> ask_rerank s w q = error_result w ''rerank'' q e)
   \<and> (hyde_retrieve s w q (Some (TOP_K s * 2)) = Inr docs
        \<and> chat_create w (MODEL_NAME s)
             (system_prompt_format
                (build_context (map fst (simple_rerank q docs (Some (TOP_K s))))) q) 0.1 1000 = Inl e
        \<longrightarrow> ask_enhanced s w q = error_result w ''hyde+rerank'' q e)
   \<and> (similarity_search s w q (Some (TOP_K s)) = Inr docs
        \<and> chat_create w (MODEL_NAME s) (system_prompt_format (build_context docs) q) 0.1 1000 = Inr resp
        \<and> calculate_enhanced_confidence s docs q (message_content resp) ''basic'' = Inl e
        \<longrightarrow> ask_basic s w q = error_result w ''basic'' q e)
   \<and> (similarity_search s w q (Some (TOP_K s * 2)) = Inr docs
        \<and> chat_create w (MODEL_NAME s)
             (system_prompt_format
                (build_context (map fst (simple_rerank q docs (Some (TOP_K s))))) q) 0.1 1000 = Inr resp
        \<and> calculate_enhanced_confidence s (map fst (simple_rerank q docs (Some (TOP_K s)))) q
             (message_content resp) ''rerank'' = Inl e
        \<longrightarrow> ask_rerank s w q = error_result w ''rerank'' q e)
   \<and> (hyde_retrieve s w q (Some (TOP_K s)) = Inr docs
        \<longrightarrow> (\<exists>c. calculate_enhanced_confidence s docs q a ''hyde'' = Inr c))
   \<and> (hyde_retrieve s w q (Some (TOP_K s * 2)) = Inr docs
        \<longrightarrow> (\<exists>c. calculate_enhanced_confidence s (map fst (simple_rerank q docs (Some (TOP_K s)))) q
                  a ''hyde+rerank'' = Inr c))
   \<and> answer (error_result w tag q e)
       = ''Sorry, an error occurred while answering the question: '' @ str_of_error e
   \<and> confidence (error_result w tag q e) = 0
   \<and> citations (error_result w tag q e) = []
   \<and> source_count (error_result w tag q e) = 0
   \<and> response_time (error_result w tag q e) = time_failed w - time_start w"
proof -
  let ?ranked = "simple_rerank q docs (Some (TOP_K s))"
  have r1: "ask_basic s w q = error_result w ''basic'' q e"
    if "similarity_search s w q (Some (TOP_K s)) = Inl e"
    using that by (simp add: ask_basic_def ask_basic_try_def catch_def)
  have r3: "ask_hyde s w q = error_result w ''hyde'' q e"
    if "hyde_retrieve s w q (Some (TOP_K s)) = Inl e"
    using that by (simp add: ask_hyde_def ask_hyde_try_def catch_def)
  have r4: "ask_rerank s w q = error_result w ''rerank'' q e"
    if "similarity_search s w q (Some (TOP_K s * 2)) = Inl e"
    using that by (simp add: ask_rerank_def ask_rerank_try_def catch_def)
  have r5: "ask_enhanced s w q = error_result w ''hyde+rerank'' q e"
    if "hyde_retrieve s w q (Some (TOP_K s * 2)) = Inl e"
    using that by (simp add: ask_enhanced_def ask_enhanced_try_def catch_def)
  have g1: "ask_basic s w q = error_result w ''basic'' q e"
    if "similarity_search s w q (Some (TOP_K s)) = Inr docs
        \<and> chat_create w (MODEL_NAME s) (system_prompt_format (build_context docs) q) 0.1 1000 = Inl e"
    using that by (simp add: ask_basic_def ask_basic_try_def catch_def generate_answer_raises)
  have g2: "ask_hyde s w q = error_result w ''hyde'' q e"
    if "hyde_retrieve s w q (Some (TOP_K s)) = Inr docs
        \<and> chat_create w (MODEL_NAME s) (system_prompt_format (build_context docs) q) 0.1 1000 = Inl e"
    using that by (simp add: ask_hyde_def ask_hyde_try_def catch_def generate_answer_raises)
  have g3: "ask_rerank s w q = error_result w ''rerank'' q e"
    if "similarity_search s w q (Some (TOP_K s * 2)) = Inr docs
        \<and> chat_create w (MODEL_NAME s)
             (system_prompt_format (build_context (map fst ?ranked)) q) 0.1 1000 = Inl e"
    using that
    by (simp add: ask_rerank_def ask_rerank_try_def catch_def Let_def generate_answer_raises)
  have g4: "ask_enhanced s w q = error_result w ''hyde+rerank'' q e"
    if "hyde_retrieve s w q (Some (TOP_K s * 2)) = Inr docs
        \<and> chat_create w (MODEL_NAME s)
             (system_prompt_format (build_context (map fst ?ranked)) q) 0.1 1000 = Inl e"
    using that
    by (simp add: ask_enhanced_def ask_enhanced_try_def catch_def Let_def generate_answer_raises)
  have c1: "ask_basic s w q = error_result w ''basic'' q e"
    if "similarity_search s w q (Some (TOP_K s)) = Inr docs
        \<and> chat_create w (MODEL_NAME s) (system_prompt_format (build_context docs) q) 0.1 1000 = Inr resp
        \<and> calculate_enhanced_confidence s docs q (message_content resp) ''basic'' = Inl e"
    using that
    by (simp add: ask_basic_def ask_basic_try_def catch_def generate_answer_confidence_raises)
  have c3: "ask_rerank s w q = error_result w ''rerank'' q e"
    if "similarity_search s w q (Some (TOP_K s * 2)) = Inr docs
        \<and> chat_create w (MODEL_NAME s)
             (system_prompt_format (build_context (map fst ?ranked)) q) 0.1 1000 = Inr resp
        \<and> calculate_enhanced_confidence s (map fst ?ranked) q (message_content resp) ''rerank'' = Inl e"
    using that
    by (simp add: ask_rerank_def ask_rerank_try_def catch_def Let_def
        generate_answer_confidence_raises)
  have n2: "\<exists>c. calculate_enhanced_confidence s docs q a ''hyde'' = Inr c"
    if d: "hyde_retrieve s w q (Some (TOP_K s)) = Inr docs"
  proof (rule confidence_returns, rule impI)
    assume "TOP_K s = 0"
    then have "py_or (Some (TOP_K s)) (TOP_K s) = 0" by (simp add: py_or_def)
    with d show "docs = []" by (rule hyde_retrieve_zero_empty)
  qed
  have n4: "\<exists>c. calculate_enhanced_confidence s (map fst ?ranked) q a ''hyde+rerank'' = Inr c"
    if d: "hyde_retrieve s w q (Some (TOP_K s * 2)) = Inr docs"
  proof (rule confidence_returns, rule impI)
    assume z: "TOP_K s = 0"
    then have "py_or (Some (TOP_K s * 2)) (TOP_K s) = 0" by (simp add: py_or_def)
    with d have "docs = []" by (rule hyde_retrieve_zero_empty)
    with z show "map fst ?ranked = []"
      by (simp add: simple_rerank_def py_or_def slice_to_def scored_docs_def sort_by_score_desc_def)
  qed
  have tries: "(ask_basic_try s w q = Inl e \<longrightarrow> ask_basic s w q = error_result w ''basic'' q e)
   \<and> (ask_hyde_try s w q = Inl e \<longrightarrow> ask_hyde s w q = error_result w ''hyde'' q e)
   \<and> (ask_rerank_try s w q = Inl e \<longrightarrow> ask_rerank s w q = error_result w ''rerank'' q e)
   \<and> (ask_enhanced_try s w q = Inl e \<longrightarrow> ask_enhanced s w q = error_result w ''hyde+rerank'' q e)"
    by (simp add: ask_basic_def ask_hyde_def ask_rerank_def ask_enhanced_def catch_Inl)
  have fields: "answer (error_result w tag q e)
       = ''Sorry, an error occurred while answering the question: '' @ str_of_error e
   \<and> confidence (error_result w tag q e) = 0
   \<and> citations (error_result w tag q e) = []
   \<and> source_count (error_result w tag q e) = 0
   \<and> response_time (error_result w tag q e) = time_failed w - time_start w"
    by (simp add: error_result_def)
  from tries r1 r3 r4 r5 g1 g2 g3 g4 c1 c3 n2 n4 fields show ?thesis
    by blast
qed


text \<open>
  Witness for C9: the four operations with a model that is out of quota and with a
  store that cannot be reached; \<open>ask_basic\<close> and \<open>ask_rerank\<close> with \<open>TOP_K = 0\<close> and a
  store that still returns a chunk, where the estimator divides by zero; and a HyDE
  retrieval after which the estimator returns.
\<close>

theorem ask_failure_result_witness:
  "similarity_search example_settings failing_world ''What is RAG?'' (Some (TOP_K example_settings))
       = Inr [doc_a, doc_b]
   \<and> chat_create failing_world (MODEL_NAME example_settings)
        (system_prompt_format (build_context [doc_a, doc_b]) ''What is RAG?'') 0.1 1000
       = Inl (GenerationError ''quota exceeded'')
   \<and> ask_basic example_settings failing_world ''What is RAG?''
       = error_result failing_world ''basic'' ''What is RAG?'' (GenerationError ''quota exceeded'')
   \<and> hyde_retrieve example_settings failing_world ''What is RAG?'' (Some (TOP_K example_settings))
       = Inr [doc_a, doc_b]
   \<and> ask_hyde example_settings failing_world ''What is RAG?''
       = error_result failing_world ''hyde'' ''What is RAG?'' (GenerationError ''quota exceeded'')
   \<and> similarity_search example_settings failing_world ''What is RAG?'' (Some (TOP_K example_settings * 2))
       = Inr [doc_a, doc_b, doc_c]
   \<and> ask_rerank example_settings failing_world ''What is RAG?''
       = error_result failing_world ''rerank'' ''What is RAG?'' (GenerationError ''quota exceeded'')
   \<and> hyde_retrieve example_settings failing_world ''What is RAG?'' (Some (TOP_K example_settings * 2))
       = Inr [doc_a, doc_b, doc_c]
   \<and> ask_enhanced example_settings failing_world ''What is RAG?''
       = error_result failing_world ''hyde+rerank'' ''What is RAG?'' (GenerationError ''quota exceeded'')
   \<and> answer (error_result failing_world ''basic'' ''What is RAG?'' (GenerationError ''quota exceeded''))
       = ''Sorry, an error occurred while answering the question: quota exceeded''
   \<and> response_time (error_result failing_world ''basic'' ''What is RAG?'' (GenerationError ''quota exceeded''))
       = 3
   \<and> similarity_search example_settings unreachable_world ''What is RAG?'' (Some (TOP_K example_settings))
       = Inl (StoreUnavailable ''connection refused'')
   \<and> ask_basic example_settings unreachable_world ''What is RAG?''
       = error_result unreachable_world ''basic'' ''What is RAG?'' (StoreUnavailable ''connection refused'')
   \<and> hyde_retrieve example_settings unreachable_world ''What is RAG?'' (Some (TOP_K example_settings))
       = Inl (StoreUnavailable ''connection refused'')
   \<and> ask_hyde example_settings unreachable_world ''What is RAG?''
       = error_result unreachable_world ''hyde'' ''What is RAG?'' (StoreUnavailable ''connection refused'')
   \<and> similarity_search example_settings unreachable_world ''What is RAG?'' (Some (TOP_K example_settings * 2))
       = Inl (StoreUnavailable ''connection refused'')
   \<and> ask_rerank example_settings unreachable_world ''What is RAG?''
       = error_result unreachable_world ''rerank'' ''What is RAG?'' (StoreUnavailable ''connection refused'')
   \<and> hyde_retrieve example_settings unreachable_world ''What is RAG?'' (Some (TOP_K example_settings * 2))
       = Inl (StoreUnavailable ''connection refused'')
   \<and> ask_enhanced example_settings unreachable_world ''What is RAG?''
       = error_result unreachable_world ''hyde+rerank'' ''What is RAG?'' (StoreUnavailable ''connection refused'')
   \<and> similarity_search zero_settings eager_world ''What is RAG?'' (Some (TOP_K zero_settings))
       = Inr [doc_a]
   \<and> calculate_enhanced_confidence zero_settings [doc_a] ''What is RAG?''
        ''RAG combines retrieval with generation'' ''basic'' = Inl ZeroDivisionError
   \<and> ask_basic zero_settings eager_world ''What is RAG?''
       = error_result eager_world ''basic'' ''What is RAG?'' ZeroDivisionError
   \<and> map fst (simple_rerank ''What is RAG?'' [doc_a] (Some (TOP_K zero_settings))) = [doc_a]
   \<and> ask_rerank zero_settings eager_world ''What is RAG?''
       = error_result eager_world ''rerank'' ''What is RAG?'' ZeroDivisionError
   \<and> hyde_retrieve example_settings example_world ''What is RAG?'' (Some (TOP_K example_settings))
       = Inr [doc_a, doc_b]
   \<and> (\<exists>c. calculate_enhanced_confidence example_settings [doc_a, doc_b] ''What is RAG?''
              ''RAG combines retrieval with generation'' ''hyde'' = Inr c)"
proof -
  let ?q = "''What is RAG?''"
  let ?quota = "GenerationError ''quota exceeded''"
  let ?refused = "StoreUnavailable ''connection refused''"
  let ?resp = "\<lparr>message_content = ''RAG combines retrieval with generation'', total_tokens = Some 42\<rparr>"
  have k: "TOP_K example_settings = 2" "TOP_K zero_settings = 0"
    by (simp_all add: example_settings_def zero_settings_def)
  have sb: "similarity_search example_settings failing_world ?q (Some (TOP_K example_settings))
       = Inr [doc_a, doc_b]"
    by (simp add: similarity_search_def py_or_def k failing_world_def example_world_def
        example_store_def)
  have sr: "similarity_search example_settings failing_world ?q (Some (TOP_K example_settings * 2))
       = Inr [doc_a, doc_b, doc_c]"
    by (simp add: similarity_search_def py_or_def k failing_world_def example_world_def
        example_store_def)
  have hy: "hyde_retrieve example_settings failing_world ?q (Some (TOP_K example_settings))
       = Inr [doc_a, doc_b]"
    unfolding k by code_simp
  have he: "hyde_retrieve example_settings failing_world ?q (Some (TOP_K example_settings * 2))
       = Inr [doc_a, doc_b, doc_c]"
    unfolding k by code_simp
  have ch: "chat_create failing_world model prompt t n = Inl ?quota" for model prompt t n
    by (simp add: failing_world_def)
  have tm: "time_failed failing_world - time_start failing_world = 3"
    by (simp add: failing_world_def example_world_def)
  note quota2 = ask_failure_result [of example_settings failing_world ?q ?quota
      "[doc_a, doc_b]" ?resp "''no answer''" "''basic''"]
  note quota3 = ask_failure_result [of example_settings failing_world ?q ?quota
      "[doc_a, doc_b, doc_c]" ?resp "''no answer''" "''basic''"]
  from quota2 sb ch
  have a1: "ask_basic example_settings failing_world ?q = error_result failing_world ''basic'' ?q ?quota"
    by simp
  from quota2 hy ch
  have a2: "ask_hyde example_settings failing_world ?q = error_result failing_world ''hyde'' ?q ?quota"
    by simp
  from quota3 sr ch
  have a3: "ask_rerank example_settings failing_world ?q = error_result failing_world ''rerank'' ?q ?quota"
    by simp
  from quota3 he ch
  have a4: "ask_enhanced example_settings failing_world ?q
       = error_result failing_world ''hyde+rerank'' ?q ?quota"
    by simp
  from quota2 tm
  have f: "answer (error_result failing_world ''basic'' ?q ?quota)
       = ''Sorry, an error occurred while answering the question: quota exceeded''
     \<and> response_time (error_result failing_world ''basic'' ?q ?quota) = 3"
    by simp
  have u: "similarity_search example_settings unreachable_world ?q kk = Inl ?refused" for kk
    by (simp add: similarity_search_def unreachable_world_def)
  have h: "hyde_retrieve example_settings unreachable_world ?q kk = Inl ?refused" for kk
    by (simp add: hyde_retrieve_def Let_def similarity_search_def unreachable_world_def)
  note refused = ask_failure_result [of example_settings unreachable_world ?q ?refused
      "[]" ?resp "''no answer''" "''basic''"]
  from refused u h
  have b: "ask_basic example_settings unreachable_world ?q = error_result unreachable_world ''basic'' ?q ?refused
    \<and> ask_hyde example_settings unreachable_world ?q = error_result unreachable_world ''hyde'' ?q ?refused
    \<and> ask_rerank example_settings unreachable_world ?q = error_result unreachable_world ''rerank'' ?q ?refused
    \<and> ask_enhanced example_settings unreachable_world ?q
        = error_result unreachable_world ''hyde+rerank'' ?q ?refused"
    by simp
  have zs: "similarity_search zero_settings eager_world ?q kk = Inr [doc_a]" for kk
    by (simp add: similarity_search_def eager_world_def)
  have zc: "chat_create eager_world model prompt t n = Inr ?resp" for model prompt t n
    by (simp add: eager_world_def example_world_def example_chat_def)
  have zd: "calculate_enhanced_confidence zero_settings [doc_a] ?q
        ''RAG combines retrieval with generation'' tag = Inl ZeroDivisionError" for tag
    by (simp add: calculate_enhanced_confidence_def k)
  have zr: "map fst (simple_rerank ?q [doc_a] (Some (TOP_K zero_settings))) = [doc_a]"
    by (simp add: k simple_rerank_zero sort_by_score_desc_def scored_docs_def)
  note zero = ask_failure_result [of zero_settings eager_world ?q ZeroDivisionError
      "[doc_a]" ?resp "''no answer''" "''basic''"]
  from zero zs [of "Some (TOP_K zero_settings)"] zc zd
  have z1: "ask_basic zero_settings eager_world ?q = error_result eager_world ''basic'' ?q ZeroDivisionError"
    by simp
  from zero zs [of "Some (TOP_K zero_settings * 2)"] zc zd zr
  have z3: "ask_rerank zero_settings eager_world ?q = error_result eager_world ''rerank'' ?q ZeroDivisionError"
    by simp
  have hw: "hyde_retrieve example_settings example_world ?q (Some (TOP_K example_settings))
       = Inr [doc_a, doc_b]"
    unfolding k by code_simp
  from hw ask_failure_result [of example_settings example_world ?q ?quota
      "[doc_a, doc_b]" ?resp "''RAG combines retrieval with generation''" "''basic''"]
  have n: "\<exists>c. calculate_enhanced_confidence example_settings [doc_a, doc_b] ?q
              ''RAG combines retrieval with generation'' ''hyde'' = Inr c"
    by simp
  from sb ch a1 hy a2 sr a3 he a4 f u h b zs zd z1 zr z3 hw n show ?thesis
    by simp
qed


section \<open>Properties of the mode selection\<close>









end
